theory Spec2Isabelle
  imports Complex_Main "HOL-Library.Sublist" "HOL-Library.Monad_Syntax"
begin

section \<open>Scoring engine\<close>

text \<open>
  The two scoring functions of \<^verbatim>\<open>app.py\<close> take the four base metrics
  \<open>T\<close>, \<open>e\<close>, \<open>m\<close>, \<open>d\<close> (Python numbers, here reals) and look each of
  them up in an \<^verbatim>\<open>if/elif/else\<close> chain. Each chain is one function below, in
  the order of the source; the sub-scores are Python ints.
\<close>

text \<open>\<^verbatim>\<open>calculate_lovescore\<close>, lines 23-27: the response-speed chain.\<close>

definition love_R :: "real \<Rightarrow> int" where
  "love_R T =
     (if T < 2 then 25
      else if T < 5 then 15
      else if T < 10 then 10
      else if T < 30 then 5
      else - 15)"

text \<open>Lines 28-32: the emoji chain.\<close>

definition love_E :: "real \<Rightarrow> int" where
  "love_E e =
     (if e > 0.5 then 20
      else if e > 0.2 then 15
      else if e > 0.1 then 10
      else if e > 0.05 then 5
      else 0)"

text \<open>Lines 33-36: the message-share chain.\<close>

definition love_M :: "real \<Rightarrow> int" where
  "love_M m =
     (if m > 0.45 then 15
      else if m > 0.35 then 10
      else if m > 0.25 then 5
      else - 10)"

text \<open>Lines 37-40: the day-consistency chain.\<close>

definition love_C :: "real \<Rightarrow> int" where
  "love_C d =
     (if d > 0.8 then 15
      else if d > 0.5 then 10
      else if d > 0.3 then 5
      else 0)"

text \<open>Lines 41-42: the total and the tuple that is returned.\<close>

definition calculate_lovescore :: "real \<Rightarrow> real \<Rightarrow> real \<Rightarrow> real \<Rightarrow> int \<times> int \<times> int \<times> int \<times> int" where
  "calculate_lovescore T e m d =
     (let R = love_R T; E = love_E e; M = love_M m; C = love_C d;
          lovescore = 50 + R + E + M + C
      in (lovescore, R, E, M, C))"

text \<open>\<^verbatim>\<open>calculate_friendship_score\<close>, lines 46-59: its four chains.\<close>

definition friendship_R :: "real \<Rightarrow> int" where
  "friendship_R T =
     (if T < 5 then 20
      else if T < 15 then 10
      else if T < 60 then 5
      else 0)"

definition friendship_E :: "real \<Rightarrow> int" where
  "friendship_E e =
     (if e > 0.2 then 20
      else if e > 0.1 then 15
      else if e > 0.05 then 10
      else 0)"

definition friendship_M :: "real \<Rightarrow> int" where
  "friendship_M m =
     (if m > 0.40 then 20
      else if m > 0.30 then 10
      else - 5)"

definition friendship_C :: "real \<Rightarrow> int" where
  "friendship_C d =
     (if d > 0.6 then 20
      else if d > 0.3 then 10
      else 0)"

text \<open>Lines 60-61: only the total is returned.\<close>

definition calculate_friendship_score :: "real \<Rightarrow> real \<Rightarrow> real \<Rightarrow> real \<Rightarrow> int" where
  "calculate_friendship_score T e m d =
     (let R = friendship_R T; E = friendship_E e; M = friendship_M m; C = friendship_C d;
          friendship_score = 40 + R + E + M + C
      in friendship_score)"

text \<open>The components of the tuple \<^verbatim>\<open>calculate_lovescore\<close> returns.\<close>

definition ls_total :: "int \<times> int \<times> int \<times> int \<times> int \<Rightarrow> int" where
  "ls_total r = fst r"

definition ls_R :: "int \<times> int \<times> int \<times> int \<times> int \<Rightarrow> int" where
  "ls_R r = fst (snd r)"

definition ls_E :: "int \<times> int \<times> int \<times> int \<times> int \<Rightarrow> int" where
  "ls_E r = fst (snd (snd r))"

definition ls_M :: "int \<times> int \<times> int \<times> int \<times> int \<Rightarrow> int" where
  "ls_M r = fst (snd (snd (snd r)))"

definition ls_C :: "int \<times> int \<times> int \<times> int \<times> int \<Rightarrow> int" where
  "ls_C r = snd (snd (snd (snd r)))"


subsection \<open>The tiers of the chains\<close>

text \<open>
  The specification describes every chain as tiers that partition the real line. The
  tables below write the tiers of each chain down one by one: the interval between two
  neighbouring thresholds, and the sub-score of that tier. They are compared with the
  chains of the code in the properties of the scoring engine.
\<close>

definition love_R_table :: "(real set \<times> int) list" where
  "love_R_table = [({..<2}, 25), ({2..<5}, 15), ({5..<10}, 10), ({10..<30}, 5), ({30..}, - 15)]"

definition love_E_table :: "(real set \<times> int) list" where
  "love_E_table = [({0.5<..}, 20), ({0.2<..0.5}, 15), ({0.1<..0.2}, 10), ({0.05<..0.1}, 5), ({..0.05}, 0)]"

definition love_M_table :: "(real set \<times> int) list" where
  "love_M_table = [({0.45<..}, 15), ({0.35<..0.45}, 10), ({0.25<..0.35}, 5), ({..0.25}, - 10)]"

definition love_C_table :: "(real set \<times> int) list" where
  "love_C_table = [({0.8<..}, 15), ({0.5<..0.8}, 10), ({0.3<..0.5}, 5), ({..0.3}, 0)]"

definition friendship_R_table :: "(real set \<times> int) list" where
  "friendship_R_table = [({..<5}, 20), ({5..<15}, 10), ({15..<60}, 5), ({60..}, 0)]"

definition friendship_E_table :: "(real set \<times> int) list" where
  "friendship_E_table = [({0.2<..}, 20), ({0.1<..0.2}, 15), ({0.05<..0.1}, 10), ({..0.05}, 0)]"

definition friendship_M_table :: "(real set \<times> int) list" where
  "friendship_M_table = [({0.40<..}, 20), ({0.30<..0.40}, 10), ({..0.30}, - 5)]"

definition friendship_C_table :: "(real set \<times> int) list" where
  "friendship_C_table = [({0.6<..}, 20), ({0.3<..0.6}, 10), ({..0.3}, 0)]"

text \<open>The sub-scores of the tiers of a table that contain \<open>x\<close>, in the table's order.\<close>

definition tiers_of :: "(real set \<times> int) list \<Rightarrow> real \<Rightarrow> int list" where
  "tiers_of table x = map snd (filter (\<lambda>(I, v). x \<in> I) table)"

section \<open>Text\<close>

text \<open>
  A Python \<^verbatim>\<open>str\<close> is a sequence of Unicode code points, so a string of the
  program is a list of code points and its length is the number of code points.
  \<open>str\<close> turns an ASCII literal into such a string. The parser starts from the decoded
  text of the upload (the input contract is UTF-8 text).
\<close>

type_synonym pystr = "nat list"

definition str :: "string \<Rightarrow> pystr" where
  "str s = map of_char s"

text \<open>
  \<^verbatim>\<open>str.isspace\<close> of one character, which is also the class \<^verbatim>\<open>\s\<close> of
  \<^verbatim>\<open>re\<close> on \<^verbatim>\<open>str\<close> patterns and what \<^verbatim>\<open>str.strip\<close> removes: the
  ASCII controls 9-13 and 28-31, the space, and the Unicode spaces and separators.
\<close>

definition isspace :: "nat \<Rightarrow> bool" where
  "isspace c \<longleftrightarrow>
     (9 \<le> c \<and> c \<le> 13) \<or> (28 \<le> c \<and> c \<le> 32) \<or> c = 133 \<or> c = 160 \<or> c = 5760
     \<or> (8192 \<le> c \<and> c \<le> 8202) \<or> c = 8232 \<or> c = 8233 \<or> c = 8239 \<or> c = 8287
     \<or> c = 12288"

text \<open>
  The two tables of the Unicode database that the patterns consult beyond ASCII are
  parameters: the decimal value of a decimal digit (\<^verbatim>\<open>\d\<close>, \<^verbatim>\<open>int\<close>) and
  the alphanumeric characters (\<^verbatim>\<open>\w\<close>, \<^verbatim>\<open>\b\<close>). Below 128 both are written
  out. KELVIN SIGN (U+212A, 8490) is written out as well: it is a letter, and the only
  character beyond ASCII that matches a letter of the patterns when case is ignored.
\<close>

record unicode_tables =
  decimal :: "nat \<Rightarrow> nat option"
  alnum :: "nat \<Rightarrow> bool"

definition todecimal :: "unicode_tables \<Rightarrow> nat \<Rightarrow> nat option" where
  "todecimal U c =
     (if c < 128 then (if 48 \<le> c \<and> c \<le> 57 then Some (c - 48) else None)
      else decimal U c)"

definition isdecimal :: "unicode_tables \<Rightarrow> nat \<Rightarrow> bool" where
  "isdecimal U c \<longleftrightarrow> todecimal U c \<noteq> None"

definition isword :: "unicode_tables \<Rightarrow> nat \<Rightarrow> bool" where
  "isword U c \<longleftrightarrow>
     (if c < 128
      then (48 \<le> c \<and> c \<le> 57) \<or> (65 \<le> c \<and> c \<le> 90) \<or> (97 \<le> c \<and> c \<le> 122) \<or> c = 95
      else c = 8490 \<or> alnum U c)"

definition strip :: "pystr \<Rightarrow> pystr" where
  "strip s = rev (dropWhile isspace (rev (dropWhile isspace s)))"

text \<open>\<^verbatim>\<open>s[i:j]\<close> for \<open>0 \<le> i\<close>, \<open>0 \<le> j\<close>.\<close>

definition slice :: "pystr \<Rightarrow> nat \<Rightarrow> nat \<Rightarrow> pystr" where
  "slice s i j = take (j - i) (drop i s)"

text \<open>
  \<^verbatim>\<open>str.lower\<close>, on the strings it is applied to here (the am/pm group of a
  timestamp, which holds ASCII letters only).
\<close>

definition lower :: "pystr \<Rightarrow> pystr" where
  "lower s = map (\<lambda>c. if 65 \<le> c \<and> c \<le> 90 then c + 32 else c) s"

text \<open>
  \<^verbatim>\<open>str.splitlines()\<close>: the line boundaries are LF, VT, FF, CR, CR LF, FS, GS, RS,
  NEL, LS and PS; the boundary is not kept, and a boundary at the very end opens no
  further line.
\<close>

definition is_linebreak :: "nat \<Rightarrow> bool" where
  "is_linebreak c \<longleftrightarrow> c = 10 \<or> c = 11 \<or> c = 12 \<or> c = 13 \<or> c = 28 \<or> c = 29 \<or> c = 30
     \<or> c = 133 \<or> c = 8232 \<or> c = 8233"

fun splitlines_from :: "pystr \<Rightarrow> pystr \<Rightarrow> pystr list" where
  "splitlines_from cur [] = (if cur = [] then [] else [cur])"
| "splitlines_from cur (c # cs) =
     (if is_linebreak c
      then cur # (case cs of
                    [] \<Rightarrow> []
                  | c' # cs' \<Rightarrow> if c = 13 \<and> c' = 10 then splitlines_from [] cs'
                                else splitlines_from [] cs)
      else splitlines_from (cur @ [c]) cs)"

definition splitlines :: "pystr \<Rightarrow> pystr list" where
  "splitlines s = splitlines_from [] s"

section \<open>Regular expressions\<close>

text \<open>
  The part of Python's \<^verbatim>\<open>re\<close> that the patterns of the program (and of
  \<^verbatim>\<open>strptime\<close>) use: one character of a class, a greedy bounded or unbounded
  repetition of a class, sequence, ordered alternation, a numbered group, the word
  boundary \<^verbatim>\<open>\b\<close> and the empty pattern.
\<close>

datatype regex =
    Chr "nat \<Rightarrow> bool"
  | Rep "nat \<Rightarrow> bool" nat "nat option"
  | Seq regex regex
  | Alt regex regex
  | Grp nat regex
  | Bnd "nat \<Rightarrow> bool"
  | Eps

type_synonym groups = "nat \<Rightarrow> (nat \<times> nat) option"

fun first_some :: "('a \<Rightarrow> 'b option) \<Rightarrow> 'a list \<Rightarrow> 'b option" where
  "first_some f [] = None"
| "first_some f (x # xs) = (case f x of Some r \<Rightarrow> Some r | None \<Rightarrow> first_some f xs)"

definition run_length :: "(nat \<Rightarrow> bool) \<Rightarrow> pystr \<Rightarrow> nat \<Rightarrow> nat" where
  "run_length p s i = length (takeWhile p (drop i s))"

text \<open>
  \<^verbatim>\<open>\b\<close> at position \<open>i\<close>: the characters before and after differ in being word
  characters, where the outside of the string counts as not a word character.
\<close>

definition at_boundary :: "(nat \<Rightarrow> bool) \<Rightarrow> pystr \<Rightarrow> nat \<Rightarrow> bool" where
  "at_boundary w s i \<longleftrightarrow>
     (let thatp = (0 < i \<and> i - 1 < length s \<and> w (s ! (i - 1)));
          thisp = (i < length s \<and> w (s ! i))
      in thisp \<noteq> thatp)"

text \<open>
  The backtracking matcher: \<open>rmatch r s i g k\<close> matches \<open>r\<close> in \<open>s\<close> from position
  \<open>i\<close> with the groups \<open>g\<close> closed so far, and hands the end position and the groups to
  the continuation \<open>k\<close> (the rest of the pattern). When the rest fails, the next choice
  is tried: a shorter repetition (greedy: longest first), then the next alternative.
  The first success is the match, as in \<^verbatim>\<open>re\<close>.
\<close>

primrec rmatch :: "regex \<Rightarrow> pystr \<Rightarrow> nat \<Rightarrow> groups \<Rightarrow> (nat \<Rightarrow> groups \<Rightarrow> (nat \<times> groups) option)
    \<Rightarrow> (nat \<times> groups) option" where
  "rmatch (Chr p) s i g k = (if i < length s \<and> p (s ! i) then k (Suc i) g else None)"
| "rmatch (Rep p lo hi) s i g k =
     (let n = (case hi of None \<Rightarrow> run_length p s i | Some h \<Rightarrow> min h (run_length p s i))
      in first_some (\<lambda>m. k (i + m) g) (rev [lo..<Suc n]))"
| "rmatch (Seq a b) s i g k = rmatch a s i g (\<lambda>j g'. rmatch b s j g' k)"
| "rmatch (Alt a b) s i g k =
     (case rmatch a s i g k of Some r \<Rightarrow> Some r | None \<Rightarrow> rmatch b s i g k)"
| "rmatch (Grp n a) s i g k = rmatch a s i g (\<lambda>j g'. k j (g'(n \<mapsto> (i, j))))"
| "rmatch (Bnd w) s i g k = (if at_boundary w s i then k i g else None)"
| "rmatch Eps s i g k = k i g"

text \<open>\<^verbatim>\<open>pattern.match(s)\<close>: a match that starts at position 0; its end and groups.\<close>

definition re_match :: "regex \<Rightarrow> pystr \<Rightarrow> (nat \<times> groups) option" where
  "re_match r s = rmatch r s 0 Map.empty (\<lambda>j g. Some (j, g))"

text \<open>\<^verbatim>\<open>pattern.search(s)\<close> finds a match: one that starts at some position of \<open>s\<close>.\<close>

definition re_search :: "regex \<Rightarrow> pystr \<Rightarrow> bool" where
  "re_search r s \<longleftrightarrow>
     list_ex (\<lambda>i. rmatch r s i Map.empty (\<lambda>j g. Some (j, g)) \<noteq> None) [0..<Suc (length s)]"

text \<open>\<^verbatim>\<open>m.group(n)\<close>; \<open>None\<close> for a group that took no part in the match.\<close>

definition group :: "pystr \<Rightarrow> groups \<Rightarrow> nat \<Rightarrow> pystr option" where
  "group s g n = (case g n of None \<Rightarrow> None | Some (i, j) \<Rightarrow> Some (slice s i j))"

definition seq :: "regex list \<Rightarrow> regex" where
  "seq rs = foldr Seq rs Eps"

fun alts :: "regex list \<Rightarrow> regex" where
  "alts [] = Eps"
| "alts [r] = r"
| "alts (r # rs) = Alt r (alts rs)"

definition lit :: "char \<Rightarrow> regex" where
  "lit c = Chr (\<lambda>x. x = of_char c)"

definition rng :: "char \<Rightarrow> char \<Rightarrow> regex" where
  "rng a b = Chr (\<lambda>x. of_char a \<le> x \<and> x \<le> of_char b)"

text \<open>
  A lower-case ASCII letter \<open>p\<close> of a pattern compiled with \<^verbatim>\<open>IGNORECASE\<close> matches
  the characters whose lower case is \<open>p\<close>: the letter, its capital and, for \<open>k\<close> (107),
  KELVIN SIGN. (The patterns below hold none of the letters \<open>i\<close> and \<open>s\<close>, which have
  further equivalents.)
\<close>

definition lower_matches :: "nat \<Rightarrow> nat \<Rightarrow> bool" where
  "lower_matches p x \<longleftrightarrow> x = p \<or> x + 32 = p \<or> (p = 107 \<and> x = 8490)"

definition lit_i :: "char \<Rightarrow> regex" where
  "lit_i c = Chr (lower_matches (of_char c))"

definition word_i :: "string \<Rightarrow> regex" where
  "word_i w = seq (map lit_i w)"

section \<open>Dates and times\<close>

text \<open>
  The parser builds every timestamp with \<^verbatim>\<open>datetime.strptime\<close> from a date, an
  hour and a minute, so a timestamp is a whole number of minutes. It is kept as the
  number of minutes since the start of day 0 of Python's proleptic ordinal
  (\<^verbatim>\<open>date.toordinal\<close>: 1 January of year 1 is day 1), the way the frame keeps it as
  a count since an epoch. A difference of two timestamps (a \<^verbatim>\<open>Timedelta\<close>) is a
  number of minutes.
\<close>

type_synonym timestamp = int

type_synonym timedelta = int

definition is_leap :: "nat \<Rightarrow> bool" where
  "is_leap y \<longleftrightarrow> y mod 4 = 0 \<and> (y mod 100 \<noteq> 0 \<or> y mod 400 = 0)"

definition days_in_month :: "nat \<Rightarrow> nat \<Rightarrow> nat" where
  "days_in_month y m =
     (if m = 2 \<and> is_leap y then 29
      else [31, 28, 31, 30, 31, 30, 31, 31, 30, 31, 30, 31] ! (m - 1))"

definition days_before_year :: "nat \<Rightarrow> nat" where
  "days_before_year y = (let z = y - 1 in z * 365 + z div 4 - z div 100 + z div 400)"

definition days_before_month :: "nat \<Rightarrow> nat \<Rightarrow> nat" where
  "days_before_month y m = sum_list (map (days_in_month y) [1..<m])"

definition ymd2ord :: "nat \<Rightarrow> nat \<Rightarrow> nat \<Rightarrow> nat" where
  "ymd2ord y m d = days_before_year y + days_before_month y m + d"

text \<open>
  The constructor \<^verbatim>\<open>datetime(y, m, d, h, mi)\<close>; \<open>None\<close> is its
  \<^verbatim>\<open>ValueError\<close> for a field out of range.
\<close>

definition datetime :: "nat \<Rightarrow> nat \<Rightarrow> nat \<Rightarrow> nat \<Rightarrow> nat \<Rightarrow> timestamp option" where
  "datetime y m d h mi =
     (if 1 \<le> y \<and> y \<le> 9999 \<and> 1 \<le> m \<and> m \<le> 12 \<and> 1 \<le> d \<and> d \<le> days_in_month y m
         \<and> h \<le> 23 \<and> mi \<le> 59
      then Some (int (ymd2ord y m d) * 1440 + int h * 60 + int mi)
      else None)"

text \<open>\<^verbatim>\<open>.dt.date\<close>: the calendar day of a timestamp, as its ordinal.\<close>

definition date_of :: "timestamp \<Rightarrow> int" where
  "date_of t = t div 1440"

text \<open>\<^verbatim>\<open>Timedelta.total_seconds()\<close> and \<^verbatim>\<open>Timedelta.days\<close> (whole days, rounded down).\<close>

definition total_seconds :: "timedelta \<Rightarrow> real" where
  "total_seconds td = real_of_int (td * 60)"

definition days :: "timedelta \<Rightarrow> int" where
  "days td = td div 1440"

subsection \<open>strptime\<close>

text \<open>
  \<^verbatim>\<open>datetime.strptime\<close> turns the format into a regular expression (one named
  group per directive, \<^verbatim>\<open>\s+\<close> for white space in the format), compiled with
  \<^verbatim>\<open>IGNORECASE\<close>; the data must match from its start and the match must reach its
  end. The directives of the two formats of the program are modelled, with the
  \<^verbatim>\<open>am\<close>/\<^verbatim>\<open>pm\<close> of the C and English locales.
\<close>

definition py_int :: "unicode_tables \<Rightarrow> pystr \<Rightarrow> nat option" where
  "py_int U s =
     (let t = strip s in
      if t \<noteq> [] \<and> list_all (isdecimal U) t
      then Some (foldl (\<lambda>n c. 10 * n + the (todecimal U c)) 0 t)
      else None)"

datatype directive = Dir_d | Dir_m | Dir_Y | Dir_y | Dir_I | Dir_M | Dir_p

fun dir_index :: "directive \<Rightarrow> nat" where
  "dir_index Dir_d = 1"
| "dir_index Dir_m = 2"
| "dir_index Dir_Y = 3"
| "dir_index Dir_y = 4"
| "dir_index Dir_I = 5"
| "dir_index Dir_M = 6"
| "dir_index Dir_p = 7"

fun dir_regex :: "unicode_tables \<Rightarrow> directive \<Rightarrow> regex" where
  "dir_regex U Dir_d =
     alts [seq [lit CHR ''3'', rng CHR ''0'' CHR ''1''],
           seq [rng CHR ''1'' CHR ''2'', Chr (isdecimal U)],
           seq [lit CHR ''0'', rng CHR ''1'' CHR ''9''],
           rng CHR ''1'' CHR ''9'',
           seq [lit CHR '' '', rng CHR ''1'' CHR ''9'']]"
| "dir_regex U Dir_m =
     alts [seq [lit CHR ''1'', rng CHR ''0'' CHR ''2''],
           seq [lit CHR ''0'', rng CHR ''1'' CHR ''9''],
           rng CHR ''1'' CHR ''9'']"
| "dir_regex U Dir_Y =
     seq [Chr (isdecimal U), Chr (isdecimal U), Chr (isdecimal U), Chr (isdecimal U)]"
| "dir_regex U Dir_y = seq [Chr (isdecimal U), Chr (isdecimal U)]"
| "dir_regex U Dir_I =
     alts [seq [lit CHR ''1'', rng CHR ''0'' CHR ''2''],
           seq [lit CHR ''0'', rng CHR ''1'' CHR ''9''],
           rng CHR ''1'' CHR ''9'']"
| "dir_regex U Dir_M = alts [seq [rng CHR ''0'' CHR ''5'', Chr (isdecimal U)], Chr (isdecimal U)]"
| "dir_regex U Dir_p = alts [word_i ''am'', word_i ''pm'']"

datatype fmt_item = Directive directive | Literal char | Whitespace

definition format_regex :: "unicode_tables \<Rightarrow> fmt_item list \<Rightarrow> regex" where
  "format_regex U fmt =
     seq (map (\<lambda>it. case it of
                      Directive x \<Rightarrow> Grp (dir_index x) (dir_regex U x)
                    | Literal c \<Rightarrow> lit c
                    | Whitespace \<Rightarrow> Rep isspace 1 None) fmt)"

text \<open>\<^verbatim>\<open>'%d/%m/%Y, %I:%M %p'\<close> and \<^verbatim>\<open>'%m/%d/%y, %I:%M %p'\<close> (lines 75 and 77).\<close>

definition fmt_dmY :: "fmt_item list" where
  "fmt_dmY = [Directive Dir_d, Literal CHR ''/'', Directive Dir_m, Literal CHR ''/'',
              Directive Dir_Y, Literal CHR '','', Whitespace, Directive Dir_I,
              Literal CHR '':'', Directive Dir_M, Whitespace, Directive Dir_p]"

definition fmt_mdy :: "fmt_item list" where
  "fmt_mdy = [Directive Dir_m, Literal CHR ''/'', Directive Dir_d, Literal CHR ''/'',
              Directive Dir_y, Literal CHR '','', Whitespace, Directive Dir_I,
              Literal CHR '':'', Directive Dir_M, Whitespace, Directive Dir_p]"

definition found_int :: "unicode_tables \<Rightarrow> pystr \<Rightarrow> groups \<Rightarrow> directive \<Rightarrow> nat option" where
  "found_int U s g x = (case group s g (dir_index x) of None \<Rightarrow> None | Some t \<Rightarrow> py_int U t)"

text \<open>
  \<open>None\<close> is the \<^verbatim>\<open>ValueError\<close> of \<^verbatim>\<open>strptime\<close>: the data does not match the
  format, data remains after the match, or the fields are not a date. A two-digit year
  up to 68 is in the 2000s, from 69 in the 1900s; the hour of the 12-hour clock is
  turned into the hour of the day.
\<close>

definition strptime :: "unicode_tables \<Rightarrow> pystr \<Rightarrow> fmt_item list \<Rightarrow> timestamp option" where
  "strptime U data_string fmt =
     (case re_match (format_regex U fmt) data_string of
        None \<Rightarrow> None
      | Some (e, g) \<Rightarrow>
          if length data_string \<noteq> e then None
          else do {
            d \<leftarrow> found_int U data_string g Dir_d;
            m \<leftarrow> found_int U data_string g Dir_m;
            I \<leftarrow> found_int U data_string g Dir_I;
            mi \<leftarrow> found_int U data_string g Dir_M;
            p \<leftarrow> group data_string g (dir_index Dir_p);
            year \<leftarrow> (case found_int U data_string g Dir_Y of
                       Some Y \<Rightarrow> Some Y
                     | None \<Rightarrow>
                         (case found_int U data_string g Dir_y of
                            Some y \<Rightarrow> Some (if y \<le> 68 then y + 2000 else y + 1900)
                          | None \<Rightarrow> None));
            let ampm = lower p;
            let hour = (if ampm = [] \<or> ampm = str ''am'' then (if I = 12 then 0 else I)
                        else if ampm = str ''pm'' then (if I \<noteq> 12 then I + 12 else I)
                        else I);
            datetime year m d hour mi
          })"

section \<open>Transcript parser\<close>

text \<open>One row of the frame \<^verbatim>\<open>parse_chat\<close> builds (line 83).\<close>

record row =
  timestamp :: timestamp
  user :: pystr
  message :: pystr

type_synonym dataframe = "row list"

text \<open>
  Line 67, the pattern
  \<^verbatim>\<open>(\d{1,2}/\d{1,2}/\d{2,4}, \d{1,2}:\d{2}\s?[apAPm\s]*) - ([^:]+): (.*)\<close>.
\<close>

definition line_pattern :: "unicode_tables \<Rightarrow> regex" where
  "line_pattern U =
     (let d = isdecimal U in
      seq [Grp 1 (seq [Rep d 1 (Some 2), lit CHR ''/'', Rep d 1 (Some 2), lit CHR ''/'',
                       Rep d 2 (Some 4), lit CHR '','', lit CHR '' '',
                       Rep d 1 (Some 2), lit CHR '':'', Rep d 2 (Some 2),
                       Rep isspace 0 (Some 1),
                       Rep (\<lambda>c. c \<in> set (str ''apAPm'') \<or> isspace c) 0 None]),
           lit CHR '' '', lit CHR ''-'', lit CHR '' '',
           Grp 2 (Rep (\<lambda>c. c \<noteq> of_char CHR '':'') 1 None),
           lit CHR '':'', lit CHR '' '',
           Grp 3 (Rep (\<lambda>c. c \<noteq> 10) 0 None)])"

text \<open>
  The body of the loop, lines 71-79, for one line: \<open>None\<close> when the line adds nothing
  to \<^verbatim>\<open>data\<close> (no match, or the \<^verbatim>\<open>continue\<close> after both formats raised), else
  the row that is appended.
\<close>

definition parse_line :: "unicode_tables \<Rightarrow> pystr \<Rightarrow> row option" where
  "parse_line U line =
     (case re_match (line_pattern U) line of
        None \<Rightarrow> None
      | Some (e, g) \<Rightarrow> do {
          date_str \<leftarrow> group line g 1;
          user0 \<leftarrow> group line g 2;
          message0 \<leftarrow> group line g 3;
          let user1 = strip user0;
          ts \<leftarrow> (case strptime U date_str fmt_dmY of
                   Some t \<Rightarrow> Some t
                 | None \<Rightarrow> strptime U date_str fmt_mdy);
          Some \<lparr>timestamp = ts, user = user1, message = message0\<rparr>
        })"

text \<open>The loop of lines 69-79: \<^verbatim>\<open>data\<close> after all lines.\<close>

definition parse_data :: "unicode_tables \<Rightarrow> pystr list \<Rightarrow> row list" where
  "parse_data U lines =
     foldl (\<lambda>data line. case parse_line U line of Some r \<Rightarrow> data @ [r] | None \<Rightarrow> data)
       [] lines"

text \<open>
  \<^verbatim>\<open>parse_chat\<close>, lines 65-85, on the decoded text. \<open>None\<close> is the
  \<^verbatim>\<open>return None\<close> of line 82 (after the error message is shown).
\<close>

definition parse_chat :: "unicode_tables \<Rightarrow> pystr \<Rightarrow> dataframe option" where
  "parse_chat U text =
     (let lines = splitlines text;
          data = parse_data U lines
      in if data = [] then None
         else Some (filter (\<lambda>r. message r \<noteq> str ''<Media omitted>'') data))"

section \<open>Feature extractor\<close>

record base_metrics =
  metric_T :: real
  metric_e :: real
  metric_m :: real
  metric_d :: real
  reply_times :: "real list"

text \<open>\<^verbatim>\<open>Series.max()\<close> and \<^verbatim>\<open>Series.min()\<close>; \<open>None\<close> is the \<^verbatim>\<open>NaT\<close> of an empty column.\<close>

fun list_max :: "int list \<Rightarrow> int option" where
  "list_max [] = None"
| "list_max (x # xs) = Some (fold max xs x)"

fun list_min :: "int list \<Rightarrow> int option" where
  "list_min [] = None"
| "list_min (x # xs) = Some (fold min xs x)"

text \<open>Lines 89-93.\<close>

definition get_reply_times :: "dataframe \<Rightarrow> pystr \<Rightarrow> pystr \<Rightarrow> real list" where
  "get_reply_times df u other_user =
     foldl (\<lambda>rts i.
              if user (df ! i) = u \<and> user (df ! (i - 1)) = other_user
              then (let time_diff =
                          total_seconds (timestamp (df ! i) - timestamp (df ! (i - 1))) / 60
                    in if time_diff < 60 * 24 then rts @ [time_diff] else rts)
              else rts)
       [] [1..<length df]"

text \<open>
  \<^verbatim>\<open>get_base_metrics\<close>, lines 87-102. \<^verbatim>\<open>emoji.EMOJI_DATA\<close> is a table of the
  \<^verbatim>\<open>emoji\<close> package and a parameter here. On an empty frame the span of line 100 is
  not a number and the test \<^verbatim>\<open>total_days > 0\<close> of line 101 is false.
\<close>

definition get_base_metrics :: "pystr set \<Rightarrow> dataframe \<Rightarrow> pystr \<Rightarrow> pystr \<Rightarrow> base_metrics" where
  "get_base_metrics EMOJI_DATA df u other_user =
     (let rts = get_reply_times df u other_user;
          T = (if rts \<noteq> [] then sum_list rts / real (length rts) else 999);
          user_messages = map message (filter (\<lambda>r. user r = u) df);
          emoji_count = length (filter (\<lambda>c. [c] \<in> EMOJI_DATA) (concat user_messages));
          e = (if user_messages \<noteq> [] then real emoji_count / real (length user_messages)
               else 0);
          m = (if length df > 0
               then real (length (filter (\<lambda>r. user r = u) df)) / real (length df) else 0);
          chat_days = length (remdups (map (\<lambda>r. date_of (timestamp r)) df));
          total_days = (case (list_max (map timestamp df), list_min (map timestamp df)) of
                          (Some mx, Some mn) \<Rightarrow> Some (days (mx - mn) + 1)
                        | _ \<Rightarrow> None);
          d = (case total_days of
                 Some n \<Rightarrow> if n > 0 then real chat_days / real_of_int n else 0
               | None \<Rightarrow> 0)
      in \<lparr>metric_T = T, metric_e = e, metric_m = m, metric_d = d, reply_times = rts\<rparr>)"

section \<open>Conversation analyzer\<close>

text \<open>
  The dictionary \<^verbatim>\<open>analyze_chat_dynamics\<close> returns; the mean length of no
  messages is not a number (\<open>None\<close>).
\<close>

record dynamics =
  q_count :: "nat \<times> nat"
  le_count :: "nat \<times> nat"
  avg_len :: "real option \<times> real option"

text \<open>
  Line 110, the patterns \<^verbatim>\<open>\bok\b\<close>, \<^verbatim>\<open>\bk\b\<close>, ...; they are joined with
  \<^verbatim>\<open>|\<close> and compiled with \<^verbatim>\<open>case=False\<close>, which ignores case.
\<close>

definition low_effort_replies :: "unicode_tables \<Rightarrow> regex list" where
  "low_effort_replies U =
     (let b = Bnd (isword U) in
      [seq [b, word_i ''ok'', b], seq [b, word_i ''k'', b], seq [b, word_i ''hmm'', b],
       seq [b, word_i ''lol'', b], seq [b, word_i ''haha'', b], seq [b, word_i ''yeah'', b]])"

text \<open>
  \<^verbatim>\<open>.str.count(r'\?')\<close> of one message: the number of matches of the pattern, which
  is the literal question mark. \<^verbatim>\<open>.str.contains(pat, case=False)\<close> of one message:
  whether the pattern is found in it.
\<close>

definition str_count :: "char \<Rightarrow> pystr \<Rightarrow> nat" where
  "str_count c s = length (filter (\<lambda>x. x = of_char c) s)"

definition str_contains :: "regex \<Rightarrow> pystr \<Rightarrow> bool" where
  "str_contains pat s = re_search pat s"

definition mean :: "nat list \<Rightarrow> real option" where
  "mean xs = (if xs = [] then None else Some (real (sum_list xs) / real (length xs)))"

text \<open>\<^verbatim>\<open>analyze_chat_dynamics\<close>, lines 104-115.\<close>

definition analyze_chat_dynamics :: "unicode_tables \<Rightarrow> dataframe \<Rightarrow> pystr \<Rightarrow> pystr \<Rightarrow> dynamics" where
  "analyze_chat_dynamics U df user1 user2 =
     (let user1_df = filter (\<lambda>r. user r = user1) df;
          user2_df = filter (\<lambda>r. user r = user2) df;
          q1_count = sum_list (map (\<lambda>r. str_count CHR ''?'' (message r)) user1_df);
          q2_count = sum_list (map (\<lambda>r. str_count CHR ''?'' (message r)) user2_df);
          pat = alts (low_effort_replies U);
          le1_count = length (filter (\<lambda>r. str_contains pat (message r)) user1_df);
          le2_count = length (filter (\<lambda>r. str_contains pat (message r)) user2_df);
          avg_len1 = mean (map (\<lambda>r. length (message r)) user1_df);
          avg_len2 = mean (map (\<lambda>r. length (message r)) user2_df)
      in \<lparr>q_count = (q1_count, q2_count), le_count = (le1_count, le2_count),
          avg_len = (avg_len1, avg_len2)\<rparr>)"

text \<open>
  \<^verbatim>\<open>analyze_starters\<close>, lines 125-133: the list \<^verbatim>\<open>starters\<close>, and its
  \<^verbatim>\<open>value_counts()\<close>, one pair per distinct author. (The pairs are ordered by
  count in the program; the order is not modelled.)
\<close>

definition starters :: "dataframe \<Rightarrow> pystr list" where
  "starters df =
     (if df \<noteq> []
      then foldl (\<lambda>st i. if timestamp (df ! i) - timestamp (df ! (i - 1)) > 6 * 60
                          then st @ [user (df ! i)] else st)
             [user (df ! 0)] [1..<length df]
      else [])"

definition value_counts :: "'a list \<Rightarrow> ('a \<times> nat) list" where
  "value_counts xs = map (\<lambda>x. (x, count_list xs x)) (remdups xs)"

definition analyze_starters :: "dataframe \<Rightarrow> (pystr \<times> nat) list" where
  "analyze_starters df = value_counts (starters df)"

section \<open>Notions of the specification\<close>

text \<open>
  The properties below are stated with the notions the specification uses. Each is
  defined here in the specification's words and related to the code in the proofs.
\<close>

subsection \<open>Parser\<close>

text \<open>
  The transcript grammar of the specification: a line is
  \<^verbatim>\<open><date>, <time> - <author>: <text>\<close>, where the date is \<^verbatim>\<open>D/D/YY\<close> or
  \<^verbatim>\<open>D/D/YYYY\<close> with a day and a month of one or two digits, the time is
  \<^verbatim>\<open>H:MM\<close>, optionally followed by an am/pm marker with optional white space around
  it, the author is a run of characters without a colon, and the text is the rest of
  the line. The specification writes the marker \<^verbatim>\<open>AM/PM\<close>; the marker is taken
  in either case. A line matches the grammar when the whole line has this form.
\<close>

definition grammar :: "unicode_tables \<Rightarrow> regex" where
  "grammar U =
     (let d = isdecimal U;
          date = seq [Rep d 1 (Some 2), lit CHR ''/'', Rep d 1 (Some 2), lit CHR ''/'',
                      Alt (Rep d 4 (Some 4)) (Rep d 2 (Some 2))];
          marker = seq [Rep isspace 0 None, Alt (word_i ''am'') (word_i ''pm''),
                        Rep isspace 0 None];
          time = seq [Rep d 1 (Some 2), lit CHR '':'', Rep d 2 (Some 2), Alt marker Eps];
          author = Rep (\<lambda>c. c \<noteq> of_char CHR '':'') 1 None;
          text = Rep (\<lambda>c. True) 0 None
      in seq [date, lit CHR '','', lit CHR '' '', time, lit CHR '' '', lit CHR ''-'',
              lit CHR '' '', author, lit CHR '':'', lit CHR '' '', text])"

definition re_fullmatch :: "regex \<Rightarrow> pystr \<Rightarrow> bool" where
  "re_fullmatch r s \<longleftrightarrow>
     rmatch r s 0 Map.empty (\<lambda>j g. if j = length s then Some (j, g) else None) \<noteq> None"

definition matches_grammar :: "unicode_tables \<Rightarrow> pystr \<Rightarrow> bool" where
  "matches_grammar U line \<longleftrightarrow> re_fullmatch (grammar U) line"

text \<open>
  What the parser accepts: the line pattern of the code matches the line
  (\<open>pattern_matches\<close>), and the date part the pattern finds parses under the day-first or
  the month-first format (\<open>timestamp_of\<close>); \<open>line_matches\<close> is both. The media
  placeholder is the text of a message that is left out of the frame.
\<close>

definition pattern_matches :: "unicode_tables \<Rightarrow> pystr \<Rightarrow> bool" where
  "pattern_matches U line \<longleftrightarrow> re_match (line_pattern U) line \<noteq> None"

definition timestamp_of :: "unicode_tables \<Rightarrow> pystr \<Rightarrow> timestamp option" where
  "timestamp_of U line =
     (case re_match (line_pattern U) line of
        None \<Rightarrow> None
      | Some (e, g) \<Rightarrow>
          (case group line g 1 of
             None \<Rightarrow> None
           | Some date_str \<Rightarrow>
               (case strptime U date_str fmt_dmY of
                  Some t \<Rightarrow> Some t
                | None \<Rightarrow> strptime U date_str fmt_mdy)))"

definition line_matches :: "unicode_tables \<Rightarrow> pystr \<Rightarrow> bool" where
  "line_matches U line \<longleftrightarrow> pattern_matches U line \<and> timestamp_of U line \<noteq> None"

definition media_omitted :: pystr where
  "media_omitted = str ''<Media omitted>''"

text \<open>The groups that every match of a pattern closes.\<close>

fun sure_groups :: "regex \<Rightarrow> nat set" where
  "sure_groups (Grp n a) = insert n (sure_groups a)"
| "sure_groups (Seq a b) = sure_groups a \<union> sure_groups b"
| "sure_groups (Alt a b) = sure_groups a \<inter> sure_groups b"
| "sure_groups (Chr p) = {}"
| "sure_groups (Rep p lo hi) = {}"
| "sure_groups (Bnd w) = {}"
| "sure_groups Eps = {}"

subsection \<open>Feature extractor and starters\<close>

text \<open>
  A qualifying reply pair: the counterpart speaks immediately before the focal user and
  the gap is under 24 hours (1440 minutes). A new conversation: the gap since the
  previous message exceeds 6 hours (360 minutes). The starter count of an author is
  the author's entry in the result of \<^verbatim>\<open>analyze_starters\<close>, 0 without an entry.
\<close>

definition qualifying_reply :: "dataframe \<Rightarrow> pystr \<Rightarrow> pystr \<Rightarrow> nat \<Rightarrow> bool" where
  "qualifying_reply df u other_user i \<longleftrightarrow>
     user (df ! i) = u \<and> user (df ! (i - 1)) = other_user
     \<and> timestamp (df ! i) - timestamp (df ! (i - 1)) < 1440"

definition new_conversation :: "dataframe \<Rightarrow> nat \<Rightarrow> bool" where
  "new_conversation df i \<longleftrightarrow> timestamp (df ! i) - timestamp (df ! (i - 1)) > 360"

definition starter_count :: "dataframe \<Rightarrow> pystr \<Rightarrow> nat" where
  "starter_count df a = (case map_of (analyze_starters df) a of Some n \<Rightarrow> n | None \<Rightarrow> 0)"

subsection \<open>Low-effort replies\<close>

text \<open>
  The lexicon, and a word of it matched as a whole word, ignoring case, at position
  \<open>i\<close> of a message: the characters from \<open>i\<close> on are the word up to case, and neither
  the character before nor the character after is a word character.
\<close>

definition lexicon :: "string list" where
  "lexicon = [''ok'', ''k'', ''hmm'', ''lol'', ''haha'', ''yeah'']"

definition same_ignoring_case :: "pystr \<Rightarrow> string \<Rightarrow> bool" where
  "same_ignoring_case t w \<longleftrightarrow> list_all2 (\<lambda>x c. lower_matches (of_char c) x) t w"

definition whole_word_at :: "unicode_tables \<Rightarrow> string \<Rightarrow> pystr \<Rightarrow> nat \<Rightarrow> bool" where
  "whole_word_at U w s i \<longleftrightarrow>
     i + length w \<le> length s
     \<and> same_ignoring_case (slice s i (i + length w)) w
     \<and> (i = 0 \<or> \<not> isword U (s ! (i - 1)))
     \<and> (i + length w = length s \<or> \<not> isword U (s ! (i + length w)))"

definition has_whole_word :: "unicode_tables \<Rightarrow> string \<Rightarrow> pystr \<Rightarrow> bool" where
  "has_whole_word U w s \<longleftrightarrow> list_ex (whole_word_at U w s) [0..<Suc (length s)]"

definition low_effort :: "unicode_tables \<Rightarrow> pystr \<Rightarrow> bool" where
  "low_effort U s \<longleftrightarrow> list_ex (\<lambda>w. has_whole_word U w s) lexicon"

definition lower_word :: "string \<Rightarrow> bool" where
  "lower_word w \<longleftrightarrow>
     w \<noteq> [] \<and> list_all (\<lambda>c. 97 \<le> (of_char c :: nat) \<and> (of_char c :: nat) \<le> 122) w"

section \<open>Sample inputs\<close>

text \<open>
  Unicode tables with nothing beyond ASCII (and KELVIN SIGN), some transcripts and some
  frames, on which the properties are evaluated. The timestamps 1063471620,
  1063471740 and 1063472340 are 1 January 2023 23:00, 2 January 2023 01:00 and
  2 January 2023 11:00.
\<close>

definition U0 :: unicode_tables where
  "U0 = \<lparr>decimal = (\<lambda>c. None), alnum = (\<lambda>c. False)\<rparr>"

definition chat_midnight :: pystr where
  "chat_midnight =
     str ''1/1/2023, 11:00 pm - Alice: hi'' @ [10] @ str ''2/1/2023, 1:00 am - Bob: yo''"


definition chat_media :: pystr where
  "chat_media =
     str ''not a message'' @ [10] @ str ''12/31/23, 9:15 am - Bob: <Media omitted>''"

definition chat_upper :: pystr where
  "chat_upper = str ''1/1/2023, 11:00 PM - Alice: hi''"

definition chat_lower :: pystr where
  "chat_lower = str ''1/1/2023, 11:00 pm - Alice: hi''"

definition df_midnight :: dataframe where
  "df_midnight =
     [\<lparr>timestamp = 1063471620, user = str ''Alice'', message = str ''hi''\<rparr>,
      \<lparr>timestamp = 1063471740, user = str ''Bob'', message = str ''yo''\<rparr>]"

definition df_questions :: dataframe where
  "df_questions =
     [\<lparr>timestamp = 1063471620, user = str ''Alice'', message = str ''what??''\<rparr>,
      \<lparr>timestamp = 1063471740, user = str ''Bob'', message = str ''ok''\<rparr>]"

definition df_starters :: dataframe where
  "df_starters =
     [\<lparr>timestamp = 1063471620, user = str ''Alice'', message = str ''hi''\<rparr>,
      \<lparr>timestamp = 1063471740, user = str ''Bob'', message = str ''yo''\<rparr>,
      \<lparr>timestamp = 1063472340, user = str ''Bob'', message = str ''morning''\<rparr>]"

section \<open>Properties of the scoring engine\<close>

lemma lovescore_components:
  "ls_R (calculate_lovescore T e m d) = love_R T"
  "ls_E (calculate_lovescore T e m d) = love_E e"
  "ls_M (calculate_lovescore T e m d) = love_M m"
  "ls_C (calculate_lovescore T e m d) = love_C d"
  "ls_total (calculate_lovescore T e m d) = 50 + love_R T + love_E e + love_M m + love_C d"
  by (simp_all add: calculate_lovescore_def Let_def ls_R_def ls_E_def ls_M_def ls_C_def
      ls_total_def)

lemma love_R_tiers:
  "(love_R T = 25 \<longleftrightarrow> T < 2)"
  "(love_R T = 15 \<longleftrightarrow> 2 \<le> T \<and> T < 5)"
  "(love_R T = 10 \<longleftrightarrow> 5 \<le> T \<and> T < 10)"
  "(love_R T = 5 \<longleftrightarrow> 10 \<le> T \<and> T < 30)"
  "(love_R T = - 15 \<longleftrightarrow> 30 \<le> T)"
  by (auto simp: love_R_def)

lemma friendship_R_tiers:
  "(friendship_R T = 20 \<longleftrightarrow> T < 5)"
  "(friendship_R T = 10 \<longleftrightarrow> 5 \<le> T \<and> T < 15)"
  "(friendship_R T = 5 \<longleftrightarrow> 15 \<le> T \<and> T < 60)"
  "(friendship_R T = 0 \<longleftrightarrow> 60 \<le> T)"
  by (auto simp: friendship_R_def)

lemma love_tiers_of:
  "tiers_of love_R_table T = [love_R T]"
  "tiers_of love_E_table e = [love_E e]"
  "tiers_of love_M_table m = [love_M m]"
  "tiers_of love_C_table d = [love_C d]"
  by (simp_all add: tiers_of_def love_R_table_def love_E_table_def love_M_table_def
      love_C_table_def love_R_def love_E_def love_M_def love_C_def)

lemma friendship_tiers_of:
  "tiers_of friendship_R_table T = [friendship_R T]"
  "tiers_of friendship_E_table e = [friendship_E e]"
  "tiers_of friendship_M_table m = [friendship_M m]"
  "tiers_of friendship_C_table d = [friendship_C d]"
  by (simp_all add: tiers_of_def friendship_R_table_def friendship_E_table_def
      friendship_M_table_def friendship_C_table_def friendship_R_def friendship_E_def
      friendship_M_def friendship_C_def)

lemma friendship_score_sum:
  "calculate_friendship_score T e m d =
     40 + friendship_R T + friendship_E e + friendship_M m + friendship_C d"
  by (simp add: calculate_friendship_score_def Let_def)

text \<open>
  Claim C1. Both scoring functions are total functions of the four real metrics, and in
  each of the eight chains exactly one tier applies to every input: of the tiers of the
  table, the only one that contains the input is the one whose sub-score the code
  assigns (so there is neither a gap nor an overlap, also at the thresholds). At the
  threshold \<open>T = 2\<close> the love response-speed sub-score is 15, the value of the tier
  \<open>T < 5\<close>, and not 25.
\<close>

theorem C1_exactly_one_tier:
  "tiers_of love_R_table T = [ls_R (calculate_lovescore T e m d)]
   \<and> tiers_of love_E_table e = [ls_E (calculate_lovescore T e m d)]
   \<and> tiers_of love_M_table m = [ls_M (calculate_lovescore T e m d)]
   \<and> tiers_of love_C_table d = [ls_C (calculate_lovescore T e m d)]
   \<and> tiers_of friendship_R_table T = [friendship_R T]
   \<and> tiers_of friendship_E_table e = [friendship_E e]
   \<and> tiers_of friendship_M_table m = [friendship_M m]
   \<and> tiers_of friendship_C_table d = [friendship_C d]
   \<and> calculate_friendship_score T e m d =
       40 + friendship_R T + friendship_E e + friendship_M m + friendship_C d
   \<and> ls_R (calculate_lovescore 2 e m d) = 15
   \<and> ls_R (calculate_lovescore 2 e m d) \<noteq> 25"
proof -
  have "ls_R (calculate_lovescore 2 e m d) = 15"
    by (simp add: lovescore_components love_R_def)
  then show ?thesis
    by (simp add: lovescore_components love_tiers_of friendship_tiers_of friendship_score_sum)
qed

text \<open>
  Claim C9. The love score is 50 plus its four sub-scores; its emoji and
  day-consistency sub-scores are never negative, its message-share sub-score is never
  below -10 and is -10 for a share of 0, and its response-speed sub-score is -15 exactly
  when \<open>T \<ge> 30\<close>. The friendship score is 40 plus its four sub-scores, its reply-time
  tiers change at 5, 15 and 60 minutes, and none of its sub-scores is below -5.
\<close>

theorem C9_score_structure:
  "ls_total (calculate_lovescore T e m d) =
       50 + ls_R (calculate_lovescore T e m d) + ls_E (calculate_lovescore T e m d)
          + ls_M (calculate_lovescore T e m d) + ls_C (calculate_lovescore T e m d)
   \<and> 0 \<le> ls_E (calculate_lovescore T e m d)
   \<and> 0 \<le> ls_C (calculate_lovescore T e m d)
   \<and> - 10 \<le> ls_M (calculate_lovescore T e m d)
   \<and> ls_M (calculate_lovescore T e 0 d) = - 10
   \<and> (ls_R (calculate_lovescore T e m d) = - 15 \<longleftrightarrow> 30 \<le> T)
   \<and> calculate_friendship_score T e m d =
       40 + friendship_R T + friendship_E e + friendship_M m + friendship_C d
   \<and> (friendship_R T = 20 \<longleftrightarrow> T < 5)
   \<and> (friendship_R T = 10 \<longleftrightarrow> 5 \<le> T \<and> T < 15)
   \<and> (friendship_R T = 5 \<longleftrightarrow> 15 \<le> T \<and> T < 60)
   \<and> (friendship_R T = 0 \<longleftrightarrow> 60 \<le> T)
   \<and> - 5 \<le> friendship_R T \<and> - 5 \<le> friendship_E e
   \<and> - 5 \<le> friendship_M m \<and> - 5 \<le> friendship_C d"
proof -
  have love: "0 \<le> love_E e" "0 \<le> love_C d" "- 10 \<le> love_M m" "love_M 0 = - 10"
    by (simp_all add: love_E_def love_C_def love_M_def)
  have friend: "- 5 \<le> friendship_R T" "- 5 \<le> friendship_E e"
    "- 5 \<le> friendship_M m" "- 5 \<le> friendship_C d"
    by (simp_all add: friendship_R_def friendship_E_def friendship_M_def friendship_C_def)
  show ?thesis
    by (simp add: lovescore_components love friend love_R_tiers friendship_R_tiers
        friendship_score_sum)
qed

section \<open>Properties of the regular expressions\<close>

lemma first_some_SomeD: "first_some f xs = Some r \<Longrightarrow> \<exists>x \<in> set xs. f x = Some r"
  by (induction xs) (auto split: option.splits)

lemma rmatch_groups:
  "rmatch r s i g k = Some res \<Longrightarrow> \<exists>j g'. k j g' = Some res \<and> dom g \<union> sure_groups r \<subseteq> dom g'"
proof (induction r arbitrary: i g k)
  case (Chr p)
  then show ?case by (auto split: if_splits)
next
  case (Rep p lo hi)
  then show ?case by (auto simp: Let_def dest!: first_some_SomeD)
next
  case (Seq a b)
  from Seq.prems have "rmatch a s i g (\<lambda>j g'. rmatch b s j g' k) = Some res" by simp
  from Seq.IH(1) [OF this] obtain j g' where
    b: "rmatch b s j g' k = Some res" and d: "dom g \<union> sure_groups a \<subseteq> dom g'" by blast
  from Seq.IH(2) [OF b] obtain j' g'' where
    "k j' g'' = Some res" "dom g' \<union> sure_groups b \<subseteq> dom g''" by blast
  with d have "k j' g'' = Some res \<and> dom g \<union> sure_groups (Seq a b) \<subseteq> dom g''"
    by (simp only: sure_groups.simps) blast
  then show ?case by blast
next
  case (Alt a b)
  show ?case
  proof (cases "rmatch a s i g k")
    case None
    with Alt.prems have "rmatch b s i g k = Some res" by simp
    from Alt.IH(2) [OF this] obtain j g' where
      "k j g' = Some res" "dom g \<union> sure_groups b \<subseteq> dom g'" by blast
    then have "k j g' = Some res \<and> dom g \<union> sure_groups (Alt a b) \<subseteq> dom g'"
      by (simp only: sure_groups.simps) blast
    then show ?thesis by blast
  next
    case (Some r)
    with Alt.prems have "rmatch a s i g k = Some res" by simp
    from Alt.IH(1) [OF this] obtain j g' where
      "k j g' = Some res" "dom g \<union> sure_groups a \<subseteq> dom g'" by blast
    then have "k j g' = Some res \<and> dom g \<union> sure_groups (Alt a b) \<subseteq> dom g'"
      by (simp only: sure_groups.simps) blast
    then show ?thesis by blast
  qed
next
  case (Grp n a)
  from Grp.prems have "rmatch a s i g (\<lambda>j g'. k j (g'(n \<mapsto> (i, j)))) = Some res" by simp
  from Grp.IH [OF this] obtain j g' where
    "k j (g'(n \<mapsto> (i, j))) = Some res" "dom g \<union> sure_groups a \<subseteq> dom g'" by blast
  then have "k j (g'(n \<mapsto> (i, j))) = Some res
      \<and> dom g \<union> sure_groups (Grp n a) \<subseteq> dom (g'(n \<mapsto> (i, j)))"
    by (simp only: sure_groups.simps dom_fun_upd) auto
  then show ?case by blast
next
  case (Bnd w)
  then show ?case by (auto split: if_splits)
next
  case Eps
  then show ?case by auto
qed

lemma re_match_groups: "re_match r s = Some (e, g) \<Longrightarrow> sure_groups r \<subseteq> dom g"
  unfolding re_match_def by (drule rmatch_groups) auto

lemma re_search_Alt: "re_search (Alt a b) s \<longleftrightarrow> re_search a s \<or> re_search b s"
  by (auto simp add: re_search_def list_ex_iff split: option.splits)

section \<open>Evaluation on the sample inputs\<close>

lemmas parse_eval =
  parse_chat_def parse_data_def parse_line_def splitlines_def is_linebreak_def
  re_match_def line_pattern_def seq_def lit_def rng_def word_i_def lit_i_def lower_matches_def
  str_def isdecimal_def todecimal_def isspace_def run_length_def Let_def group_def slice_def
  strptime_def format_regex_def fmt_dmY_def fmt_mdy_def found_int_def py_int_def strip_def
  lower_def datetime_def days_in_month_def is_leap_def ymd2ord_def days_before_year_def
  days_before_month_def upt_rec

lemmas line_eval = line_matches_def pattern_matches_def timestamp_of_def parse_eval

lemma parse_chat_midnight: "parse_chat U0 chat_midnight = Some df_midnight"
  by (simp add: parse_eval U0_def chat_midnight_def df_midnight_def)


lemma splitlines_chat_media:
  "splitlines chat_media = [str ''not a message'', str ''12/31/23, 9:15 am - Bob: <Media omitted>'']"
  by (simp add: chat_media_def splitlines_def str_def is_linebreak_def)

lemma chat_media_lines:
  "\<not> line_matches U0 (str ''not a message'')"
  "line_matches U0 (str ''12/31/23, 9:15 am - Bob: <Media omitted>'')"
  "message (the (parse_line U0 (str ''12/31/23, 9:15 am - Bob: <Media omitted>''))) = media_omitted"
  by (simp_all add: line_eval U0_def media_omitted_def)

lemma chat_upper_grammar: "matches_grammar U0 chat_upper"
  by (simp add: matches_grammar_def re_fullmatch_def grammar_def chat_upper_def parse_eval
      U0_def)

lemma chat_upper_timestamp:
  "strptime U0 (str ''1/1/2023, 11:00 PM'') fmt_dmY = Some 1063471620"
  by (simp add: parse_eval U0_def)

lemma chat_upper_pattern: "\<not> pattern_matches U0 chat_upper"
  by (simp add: pattern_matches_def chat_upper_def parse_eval U0_def)

lemma parse_chat_upper: "parse_chat U0 chat_upper = None"
  by (simp add: parse_eval U0_def chat_upper_def)

lemma parse_chat_lower:
  "parse_chat U0 chat_lower =
     Some [\<lparr>timestamp = 1063471620, user = str ''Alice'', message = str ''hi''\<rparr>]"
  by (simp add: parse_eval U0_def chat_lower_def)

section \<open>Properties of the parser\<close>

lemma sure_groups_line_pattern: "sure_groups (line_pattern U) = {1, 2, 3}"
  by (auto simp add: line_pattern_def seq_def lit_def Let_def)

lemma line_pattern_groups:
  assumes "re_match (line_pattern U) line = Some (e, g)"
  shows "\<exists>a b c. group line g 1 = Some a \<and> group line g 2 = Some b \<and> group line g 3 = Some c"
proof -
  from re_match_groups [OF assms] have "{1, 2, 3} \<subseteq> dom g"
    by (simp only: sure_groups_line_pattern)
  then show ?thesis by (auto simp add: group_def dom_def)
qed

lemma parse_line_matches: "parse_line U line \<noteq> None \<longleftrightarrow> line_matches U line"
proof (cases "re_match (line_pattern U) line")
  case None
  then show ?thesis
    by (simp add: parse_line_def line_matches_def pattern_matches_def)
next
  case (Some eg)
  obtain e g where eg: "eg = (e, g)" by (cases eg)
  from line_pattern_groups [of U line e g] Some eg obtain a b c where
    "group line g 1 = Some a" "group line g 2 = Some b" "group line g 3 = Some c" by auto
  with Some eg show ?thesis
    by (auto simp add: parse_line_def line_matches_def pattern_matches_def timestamp_of_def
        bind_eq_Some_conv split: option.splits)
qed


lemma foldl_append_case:
  "foldl (\<lambda>acc x. case f x of Some r \<Rightarrow> acc @ [r] | None \<Rightarrow> acc) a xs =
     a @ map (\<lambda>x. the (f x)) (filter (\<lambda>x. f x \<noteq> None) xs)"
  by (induction xs arbitrary: a) (auto split: option.splits)

lemma parse_data_eq:
  "parse_data U lines = map (\<lambda>l. the (parse_line U l)) (filter (line_matches U) lines)"
proof -
  have "(\<lambda>l. parse_line U l \<noteq> None) = line_matches U"
    using parse_line_matches [of U] by (simp only: fun_eq_iff) blast
  then show ?thesis
    by (simp only: parse_data_def foldl_append_case append_Nil)
qed

lemma parse_chat_eq:
  "parse_chat U text =
     (if list_ex (line_matches U) (splitlines text)
      then Some (filter (\<lambda>r. message r \<noteq> media_omitted)
                   (map (\<lambda>l. the (parse_line U l)) (filter (line_matches U) (splitlines text))))
      else None)"
  by (auto simp add: parse_chat_def Let_def parse_data_eq media_omitted_def list_ex_iff
      filter_empty_conv)

text \<open>
  Claim C6 fails on the code. The line \<^verbatim>\<open>1/1/2023, 11:00 PM - Alice: hi\<close> matches
  the transcript grammar, and its date and time parse under the day-first format
  (\<^verbatim>\<open>strptime\<close> takes the marker in either case). The line pattern of the code does
  not match it: the class \<^verbatim>\<open>[apAPm\s]\<close> holds \<^verbatim>\<open>a\<close>, \<^verbatim>\<open>p\<close>, \<^verbatim>\<open>A\<close>,
  \<^verbatim>\<open>P\<close> and \<^verbatim>\<open>m\<close>, but no \<^verbatim>\<open>M\<close>. So \<^verbatim>\<open>parse_chat\<close> reports the parse
  failure for this transcript although one of its lines matches the grammar and the
  timestamp formats. The same line with the marker \<^verbatim>\<open>pm\<close> is parsed.
\<close>

theorem C6_upper_case_marker_fails:
  "chat_upper = str ''1/1/2023, 11:00 PM'' @ str '' - Alice: hi''
   \<and> splitlines chat_upper = [chat_upper]
   \<and> matches_grammar U0 chat_upper
   \<and> strptime U0 (str ''1/1/2023, 11:00 PM'') fmt_dmY = Some 1063471620
   \<and> \<not> pattern_matches U0 chat_upper
   \<and> parse_chat U0 chat_upper = None
   \<and> parse_chat U0 chat_lower =
       Some [\<lparr>timestamp = 1063471620, user = str ''Alice'', message = str ''hi''\<rparr>]"
proof -
  have "chat_upper = str ''1/1/2023, 11:00 PM'' @ str '' - Alice: hi''"
    by (simp add: chat_upper_def str_def)
  moreover have "splitlines chat_upper = [chat_upper]"
    by (simp add: chat_upper_def splitlines_def str_def is_linebreak_def)
  ultimately show ?thesis
    using chat_upper_grammar chat_upper_timestamp chat_upper_pattern parse_chat_upper
      parse_chat_lower
    by (simp only: simp_thms)
qed



text \<open>
  Claim C10. The test for an empty result comes before the media placeholders are
  filtered out: when at least one line of the input matches and the text of every
  matching line is the media placeholder, \<^verbatim>\<open>parse_chat\<close> reports no failure and
  returns the empty frame.
\<close>

theorem C10_only_media:
  assumes "list_ex (line_matches U) (splitlines text)"
    and "list_all (\<lambda>l. \<not> line_matches U l \<or> message (the (parse_line U l)) = media_omitted)
           (splitlines text)"
  shows "parse_chat U text = Some []"
  using assms by (auto simp add: parse_chat_eq list_all_iff filter_empty_conv)

text \<open>On a sample whose only message is a media placeholder.\<close>

theorem C10_only_media_witness:
  "list_ex (line_matches U0) (splitlines chat_media) \<and> parse_chat U0 chat_media = Some []"
proof -
  have 1: "list_ex (line_matches U0) (splitlines chat_media)"
    by (simp add: splitlines_chat_media chat_media_lines)
  have 2: "list_all (\<lambda>l. \<not> line_matches U0 l \<or> message (the (parse_line U0 l)) = media_omitted)
           (splitlines chat_media)"
    by (simp add: splitlines_chat_media chat_media_lines)
  from C10_only_media [OF 1 2] 1 show ?thesis by simp
qed

section \<open>Properties of the feature extractor\<close>

lemma foldl_append_if:
  "foldl (\<lambda>acc i. if P i then acc @ [f i] else acc) a xs = a @ map f (filter P xs)"
  by (induction xs arbitrary: a) simp_all

lemma get_reply_times_eq:
  "get_reply_times df u other_user =
     map (\<lambda>i. real_of_int (timestamp (df ! i) - timestamp (df ! (i - 1))))
       (filter (qualifying_reply df u other_user) [1..<length df])"
proof -
  have "(\<lambda>rts i.
              if user (df ! i) = u \<and> user (df ! (i - 1)) = other_user
              then (let time_diff =
                          total_seconds (timestamp (df ! i) - timestamp (df ! (i - 1))) / 60
                    in if time_diff < 60 * 24 then rts @ [time_diff] else rts)
              else rts)
      = (\<lambda>rts i. if qualifying_reply df u other_user i
           then rts @ [real_of_int (timestamp (df ! i) - timestamp (df ! (i - 1)))] else rts)"
    by (auto simp add: fun_eq_iff qualifying_reply_def total_seconds_def Let_def)
  then show ?thesis
    by (simp add: get_reply_times_def foldl_append_if)
qed

lemma metric_T_eq:
  "metric_T (get_base_metrics E df u other_user) =
     (if get_reply_times df u other_user \<noteq> []
      then sum_list (get_reply_times df u other_user) / real (length (get_reply_times df u other_user))
      else 999)"
  "reply_times (get_base_metrics E df u other_user) = get_reply_times df u other_user"
  by (simp_all add: get_base_metrics_def Let_def)

text \<open>
  Claim C4. When no adjacent pair of rows is a qualifying reply pair, the feature
  extractor collects no reply time and returns \<open>T = 999\<close>; for this \<open>T\<close> the love
  response-speed sub-score is -15 and the friendship one is 0, which are the lowest
  values these sub-scores take.
\<close>

theorem C4_no_replies:
  assumes "\<not> list_ex (qualifying_reply df u other_user) [1..<length df]"
  shows "reply_times (get_base_metrics E df u other_user) = []
       \<and> metric_T (get_base_metrics E df u other_user) = 999
       \<and> ls_R (calculate_lovescore (metric_T (get_base_metrics E df u other_user)) e m d) = - 15
       \<and> calculate_friendship_score (metric_T (get_base_metrics E df u other_user)) e m d =
           40 + 0 + friendship_E e + friendship_M m + friendship_C d
       \<and> friendship_R (metric_T (get_base_metrics E df u other_user)) = 0
       \<and> - 15 \<le> ls_R (calculate_lovescore T' e m d) \<and> 0 \<le> friendship_R T'"
proof -
  have "filter (qualifying_reply df u other_user) [1..<length df] = []"
    using assms by (simp add: list_ex_iff filter_empty_conv)
  then have rt: "get_reply_times df u other_user = []"
    by (simp add: get_reply_times_eq)
  then have T: "metric_T (get_base_metrics E df u other_user) = 999"
    by (simp add: metric_T_eq)
  have low: "- 15 \<le> love_R T'" "0 \<le> friendship_R T'"
    by (simp_all add: love_R_def friendship_R_def)
  have "love_R 999 = - 15" "friendship_R 999 = 0"
    by (simp_all add: love_R_def friendship_R_def)
  then show ?thesis
    using rt T low by (simp add: metric_T_eq lovescore_components friendship_score_sum)
qed

text \<open>On a sample in which Alice never replies to Bob.\<close>

theorem C4_no_replies_witness:
  "reply_times (get_base_metrics {} df_midnight (str ''Alice'') (str ''Bob'')) = []
   \<and> metric_T (get_base_metrics {} df_midnight (str ''Alice'') (str ''Bob'')) = 999
   \<and> ls_R (calculate_lovescore
             (metric_T (get_base_metrics {} df_midnight (str ''Alice'') (str ''Bob''))) 0 0 0) = - 15
   \<and> friendship_R (metric_T (get_base_metrics {} df_midnight (str ''Alice'') (str ''Bob''))) = 0"
proof -
  have "\<not> list_ex (qualifying_reply df_midnight (str ''Alice'') (str ''Bob'')) [1..<length df_midnight]"
    by (simp add: df_midnight_def qualifying_reply_def str_def upt_rec)
  from C4_no_replies [OF this, where E = "{}" and e = 0 and m = 0 and d = 0 and T' = 0]
  show ?thesis by blast
qed

text \<open>
  Claim C3 fails on the code. The day coverage divides the number of distinct calendar
  days by the whole days between the first and the last timestamp plus one, not by the
  number of calendar days from the first day to the last. For the transcript with one
  message on 1 January 2023 at 23:00 and one on 2 January 2023 at 01:00 there are two
  distinct days (the ordinals 738521 and 738522, two calendar days from the first to
  the last) and a span of one, so \<open>d = 2\<close>, above 1.
\<close>

theorem C3_day_coverage_above_one:
  "parse_chat U0 chat_midnight = Some df_midnight
   \<and> map (\<lambda>r. date_of (timestamp r)) df_midnight = [738521, 738522]
   \<and> metric_d (get_base_metrics {} df_midnight (str ''Alice'') (str ''Bob'')) = 2
   \<and> metric_d (get_base_metrics {} df_midnight (str ''Bob'') (str ''Alice'')) = 2"
  by (simp add: parse_chat_midnight)
    (simp add: get_base_metrics_def Let_def df_midnight_def date_of_def days_def)

section \<open>Properties of the conversation analyzer\<close>

lemma starters_eq:
  "df \<noteq> [] \<Longrightarrow>
   starters df = user (hd df) # map (\<lambda>i. user (df ! i)) (filter (new_conversation df) [1..<length df])"
proof -
  assume ne: "df \<noteq> []"
  have "(\<lambda>i. 6 * 60 < timestamp (df ! i) - timestamp (df ! (i - 1))) = new_conversation df"
    by (simp add: new_conversation_def fun_eq_iff)
  with ne show ?thesis
    by (simp add: starters_def foldl_append_if hd_conv_nth)
qed

lemma sum_value_counts: "sum_list (map snd (value_counts xs)) = length xs"
proof -
  have "sum_list (map snd (value_counts xs)) = sum_list (map (count_list xs) (remdups xs))"
    by (simp add: value_counts_def comp_def)
  also have "\<dots> = sum (count_list xs) (set xs)"
    by (simp add: sum_list_distinct_conv_sum_set)
  also have "\<dots> = length xs"
    by (rule sum_count_set) simp_all
  finally show ?thesis .
qed

lemma map_of_value_counts:
  "map_of (value_counts xs) a = (if a \<in> set xs then Some (count_list xs a) else None)"
  by (simp add: value_counts_def map_of_map_restrict restrict_map_def)

lemma count_list_filter: "count_list xs a = length (filter (\<lambda>x. x = a) xs)"
  by (induction xs) simp_all

text \<open>
  Claim C5. For a frame that is not empty, the starters are the author of the first
  message followed by the authors of the later messages whose gap since the previous
  message exceeds 6 hours, in order. The counts of all authors sum to 1 plus the number
  of such gaps, the count of an author is 1 if they wrote the first message (else 0)
  plus the number of such gaps before one of their messages, and the first author's
  count is at least 1.
\<close>

theorem C5_starters:
  assumes "df \<noteq> []"
  shows "starters df =
           user (hd df) # map (\<lambda>i. user (df ! i)) (filter (new_conversation df) [1..<length df])
       \<and> sum_list (map snd (analyze_starters df)) =
           1 + length (filter (new_conversation df) [1..<length df])
       \<and> starter_count df a =
           (if user (hd df) = a then 1 else 0)
           + length (filter (\<lambda>i. new_conversation df i \<and> user (df ! i) = a) [1..<length df])
       \<and> 1 \<le> starter_count df (user (hd df))"
proof -
  note st = starters_eq [OF assms]
  have s: "sum_list (map snd (analyze_starters df)) =
           1 + length (filter (new_conversation df) [1..<length df])"
    by (simp add: analyze_starters_def sum_value_counts st)
  have c: "starter_count df a = count_list (starters df) a" for a
    by (auto simp add: starter_count_def analyze_starters_def map_of_value_counts
        count_list_0_iff)
  have n: "count_list (starters df) a =
           (if user (hd df) = a then 1 else 0)
           + length (filter (\<lambda>i. new_conversation df i \<and> user (df ! i) = a) [1..<length df])" for a
    by (simp add: st count_list_filter filter_map comp_def conj_commute)
  show ?thesis using st s c n by simp
qed

text \<open>On a sample of three messages with one gap of ten hours.\<close>

theorem C5_starters_witness:
  "sum_list (map snd (analyze_starters df_starters)) = 2
   \<and> starter_count df_starters (str ''Alice'') = 1
   \<and> starter_count df_starters (str ''Bob'') = 1"
proof -
  have ne: "df_starters \<noteq> []" by (simp add: df_starters_def)
  have len: "[1..<length df_starters] = [1, 2]"
    by (simp add: df_starters_def upt_rec)
  have nc: "\<not> new_conversation df_starters (Suc 0)" "new_conversation df_starters 2"
    by (simp_all add: df_starters_def new_conversation_def)
  have us: "user (hd df_starters) = str ''Alice''" "user (df_starters ! 2) = str ''Bob''"
    "str ''Alice'' \<noteq> str ''Bob''" "str ''Bob'' \<noteq> str ''Alice''"
    by (simp_all add: df_starters_def str_def)
  from C5_starters [OF ne, of "str ''Alice''"] C5_starters [OF ne, of "str ''Bob''"]
  show ?thesis unfolding len by (simp add: nc us)
qed

lemma sum_list_count_ge:
  "length (filter (\<lambda>r. P r \<and> 0 < f r) rs) \<le> sum_list (map f (filter P rs))"
  by (induction rs) auto

lemma str_count_pos: "0 < str_count c s \<longleftrightarrow> of_char c \<in> set s"
  by (auto simp add: str_count_def filter_empty_conv)

lemma str_count_concat:
  "sum_list (map (\<lambda>r. str_count c (message r)) rs) = str_count c (concat (map message rs))"
  by (induction rs) (simp_all add: str_count_def)

lemma dynamics_components:
  "fst (q_count (analyze_chat_dynamics U df user1 user2)) =
     sum_list (map (\<lambda>r. str_count CHR ''?'' (message r)) (filter (\<lambda>r. user r = user1) df))"
  "snd (q_count (analyze_chat_dynamics U df user1 user2)) =
     sum_list (map (\<lambda>r. str_count CHR ''?'' (message r)) (filter (\<lambda>r. user r = user2) df))"
  "fst (le_count (analyze_chat_dynamics U df user1 user2)) =
     length (filter (\<lambda>r. str_contains (alts (low_effort_replies U)) (message r))
       (filter (\<lambda>r. user r = user1) df))"
  "snd (le_count (analyze_chat_dynamics U df user1 user2)) =
     length (filter (\<lambda>r. str_contains (alts (low_effort_replies U)) (message r))
       (filter (\<lambda>r. user r = user2) df))"
  by (simp_all add: analyze_chat_dynamics_def Let_def)

text \<open>
  Claim C2, amended. For each of the two users, the low-effort count never exceeds the
  number of the user's messages. The question count is the number of question marks
  in all the user's messages (every occurrence counts), which is at least the number of
  the user's messages that contain a question mark.
\<close>

theorem C2_engagement_counts:
  "fst (le_count (analyze_chat_dynamics U df user1 user2)) \<le> length (filter (\<lambda>r. user r = user1) df)
   \<and> snd (le_count (analyze_chat_dynamics U df user1 user2)) \<le> length (filter (\<lambda>r. user r = user2) df)
   \<and> fst (q_count (analyze_chat_dynamics U df user1 user2)) =
       str_count CHR ''?'' (concat (map message (filter (\<lambda>r. user r = user1) df)))
   \<and> snd (q_count (analyze_chat_dynamics U df user1 user2)) =
       str_count CHR ''?'' (concat (map message (filter (\<lambda>r. user r = user2) df)))
   \<and> length (filter (\<lambda>r. user r = user1 \<and> of_char CHR ''?'' \<in> set (message r)) df)
       \<le> fst (q_count (analyze_chat_dynamics U df user1 user2))
   \<and> length (filter (\<lambda>r. user r = user2 \<and> of_char CHR ''?'' \<in> set (message r)) df)
       \<le> snd (q_count (analyze_chat_dynamics U df user1 user2))"
proof -
  have ge: "length (filter (\<lambda>r. user r = a \<and> of_char CHR ''?'' \<in> set (message r)) df)
      \<le> sum_list (map (\<lambda>r. str_count CHR ''?'' (message r)) (filter (\<lambda>r. user r = a) df))" for a
    using sum_list_count_ge [of "\<lambda>r. user r = a" "\<lambda>r. str_count CHR ''?'' (message r)" df]
    by (simp only: str_count_pos)
  have le: "length (filter (\<lambda>r. str_contains (alts (low_effort_replies U)) (message r))
       (filter (\<lambda>r. user r = a) df)) \<le> length (filter (\<lambda>r. user r = a) df)" for a
    by (rule length_filter_le)
  show ?thesis
    unfolding dynamics_components str_count_concat
    using ge [of user1] ge [of user2] le [of user1] le [of user2]
    by (simp only: str_count_concat simp_thms)
qed

text \<open>
  The claim as stated fails: for one message \<^verbatim>\<open>what??\<close> of Alice the question count
  is 2, above her one message, and not the number of her messages with a question
  mark.
\<close>

theorem C2_counterexample:
  "\<not> fst (q_count (analyze_chat_dynamics U0 df_questions (str ''Alice'') (str ''Bob'')))
       \<le> length (filter (\<lambda>r. user r = str ''Alice'') df_questions)
   \<and> fst (q_count (analyze_chat_dynamics U0 df_questions (str ''Alice'') (str ''Bob'')))
       \<noteq> length (filter (\<lambda>r. user r = str ''Alice'' \<and> of_char CHR ''?'' \<in> set (message r))
                  df_questions)"
  by (simp add: dynamics_components df_questions_def str_def str_count_def)

lemma slice_Suc:
  "i < length s \<Longrightarrow> slice s i (Suc (i + n)) = s ! i # slice s (Suc i) (Suc (i + n))"
  by (simp add: slice_def Cons_nth_drop_Suc [symmetric])

lemma word_i_Cons: "word_i (c # w) = Seq (lit_i c) (word_i w)" and word_i_Nil: "word_i [] = Eps"
  by (simp_all add: word_i_def seq_def)

lemma rmatch_word_i:
  "i \<le> length s \<Longrightarrow>
   rmatch (word_i w) s i g k =
     (if i + length w \<le> length s \<and> same_ignoring_case (slice s i (i + length w)) w
      then k (i + length w) g else None)"
proof (induction w arbitrary: i)
  case Nil
  then show ?case by (simp add: word_i_Nil same_ignoring_case_def slice_def)
next
  case (Cons c w)
  show ?case
  proof (cases "i < length s")
    case True
    then show ?thesis
      using Cons.IH [of "Suc i"]
      by (auto simp add: word_i_Cons lit_i_def same_ignoring_case_def slice_Suc)
  next
    case False
    then show ?thesis by (simp add: word_i_Cons lit_i_def)
  qed
qed

lemma lower_matches_isword:
  "97 \<le> p \<Longrightarrow> p \<le> 122 \<Longrightarrow> lower_matches p x \<Longrightarrow> isword U x"
  by (auto simp add: lower_matches_def isword_def)

lemma same_ignoring_case_isword:
  assumes "same_ignoring_case t w" "list_all (\<lambda>c. 97 \<le> (of_char c :: nat) \<and> (of_char c :: nat) \<le> 122) w"
    and "n < length t"
  shows "isword U (t ! n)"
proof -
  from assms(1) have len: "length t = length w"
    and m: "lower_matches (of_char (w ! n)) (t ! n)"
    using assms(3) by (auto simp add: same_ignoring_case_def list_all2_conv_all_nth)
  from assms(2,3) len have "97 \<le> (of_char (w ! n) :: nat) \<and> (of_char (w ! n) :: nat) \<le> 122"
    by (simp add: list_all_length)
  with m show ?thesis by (blast intro: lower_matches_isword)
qed

lemma rmatch_bounded_word:
  assumes "lower_word w"
  shows "rmatch (seq [Bnd (isword U), word_i w, Bnd (isword U)]) s i g k =
           (if whole_word_at U w s i then k (i + length w) g else None)"
proof -
  consider (out) "\<not> i \<le> length s"
    | (no) "i \<le> length s"
        "\<not> (i + length w \<le> length s \<and> same_ignoring_case (slice s i (i + length w)) w)"
    | (yes) "i + length w \<le> length s" "same_ignoring_case (slice s i (i + length w)) w"
    by linarith
  then show ?thesis
  proof cases
    case out
    then have "\<not> at_boundary (isword U) s i"
      by (auto simp add: at_boundary_def)
    with out show ?thesis
      by (simp add: seq_def whole_word_at_def)
  next
    case no
    then show ?thesis
      by (auto simp add: seq_def rmatch_word_i whole_word_at_def)
  next
    case yes
    let ?t = "slice s i (i + length w)"
    from assms have w: "w \<noteq> []"
      and lw: "list_all (\<lambda>c. 97 \<le> (of_char c :: nat) \<and> (of_char c :: nat) \<le> 122) w"
      by (simp_all add: lower_word_def)
    from w have w0: "0 < length w" by simp
    from yes(1) have lt: "length ?t = length w" by (simp add: slice_def)
    from yes(1) w0 have i: "i < length s" by linarith
    have nth: "?t ! n = s ! (i + n)" if "n < length w" for n
      using that yes(1) by (simp add: slice_def)
    have "isword U (?t ! 0)"
      using same_ignoring_case_isword [of ?t w 0 U] yes(2) lw lt w0 by simp
    then have first: "isword U (s ! i)"
      using nth [of 0] w0 by simp
    have "isword U (?t ! (length w - 1))"
      using same_ignoring_case_isword [of ?t w "length w - 1" U] yes(2) lw lt w0 by simp
    then have last: "isword U (s ! (i + length w - 1))"
      using nth [of "length w - 1"] w0 by simp
    have b1: "at_boundary (isword U) s i \<longleftrightarrow> i = 0 \<or> \<not> isword U (s ! (i - 1))"
      using first i by (auto simp add: at_boundary_def Let_def)
    have b2: "at_boundary (isword U) s (i + length w) \<longleftrightarrow>
        i + length w = length s \<or> \<not> isword U (s ! (i + length w))"
    proof -
      have "0 < i + length w" "i + length w - 1 < length s"
        using yes(1) w0 by linarith+
      with last have "0 < i + length w \<and> i + length w - 1 < length s
          \<and> isword U (s ! (i + length w - 1))" by blast
      moreover have "i + length w < length s \<longleftrightarrow> i + length w \<noteq> length s"
        using yes(1) by linarith
      ultimately show ?thesis
        unfolding at_boundary_def Let_def by blast
    qed
    from yes have il: "i \<le> length s" by linarith
    from yes b1 b2 il show ?thesis
      by (simp add: seq_def rmatch_word_i whole_word_at_def)
  qed
qed

lemma re_search_bounded_word:
  "lower_word w \<Longrightarrow>
   re_search (seq [Bnd (isword U), word_i w, Bnd (isword U)]) s \<longleftrightarrow> has_whole_word U w s"
  by (simp add: re_search_def has_whole_word_def rmatch_bounded_word list_ex_iff
      del: upt_Suc)

lemma lexicon_lower:
  "lower_word ''ok''" "lower_word ''k''" "lower_word ''hmm''" "lower_word ''lol''"
  "lower_word ''haha''" "lower_word ''yeah''"
  by (simp_all add: lower_word_def)

lemma str_contains_low_effort:
  "str_contains (alts (low_effort_replies U)) s \<longleftrightarrow> low_effort U s"
  by (simp add: str_contains_def low_effort_replies_def Let_def re_search_Alt
      re_search_bounded_word lexicon_lower low_effort_def lexicon_def)

lemma low_effort_examples:
  "low_effort U (str ''ok'')" "low_effort U (str ''OK'')" "\<not> low_effort U (str ''okay'')"
  by (simp_all add: low_effort_def lexicon_def has_whole_word_def whole_word_at_def
      same_ignoring_case_def slice_def str_def lower_matches_def isword_def upt_rec)

text \<open>
  Claim C8. The low-effort count of a user is the number of the user's messages in
  which a word of the lexicon (ok, k, hmm, lol, haha, yeah) occurs as a whole word,
  ignoring case. A message \<^verbatim>\<open>ok\<close> or \<^verbatim>\<open>OK\<close> is counted, a message
  \<^verbatim>\<open>okay\<close> is not.
\<close>

theorem C8_low_effort_whole_words:
  "fst (le_count (analyze_chat_dynamics U df user1 user2)) =
       length (filter (\<lambda>r. user r = user1 \<and> low_effort U (message r)) df)
   \<and> snd (le_count (analyze_chat_dynamics U df user1 user2)) =
       length (filter (\<lambda>r. user r = user2 \<and> low_effort U (message r)) df)
   \<and> fst (le_count (analyze_chat_dynamics U
        [\<lparr>timestamp = t, user = user1, message = str ''ok''\<rparr>] user1 user2)) = 1
   \<and> fst (le_count (analyze_chat_dynamics U
        [\<lparr>timestamp = t, user = user1, message = str ''OK''\<rparr>] user1 user2)) = 1
   \<and> fst (le_count (analyze_chat_dynamics U
        [\<lparr>timestamp = t, user = user1, message = str ''okay''\<rparr>] user1 user2)) = 0"
  by (simp add: dynamics_components str_contains_low_effort low_effort_examples conj_commute)

end
